theory Spec2Isabelle
  imports Main
begin

section \<open>Data model of \<open>src/app.ts\<close>\<close>

text \<open>
  The interfaces of the source become records. Field names carry a prefix where two
  interfaces share a name (\<open>id\<close>, \<open>completedSessions\<close>, \<open>tasks\<close>).
  A JavaScript number is an IEEE double. Every number the program computes itself is
  an integer (counters, seconds, \<open>Date.now()\<close>), so a number is modelled by the
  \<open>int\<close> it holds, and the arithmetic of the source is the arithmetic of doubles on
  such values (section Numbers): exact up to \<open>2 ^ 53\<close> in magnitude, rounded beyond.

  \<open>Task\<close> objects are mutable and are held by reference: \<open>toggleTask\<close> mutates the
  object found in \<open>this.tasks\<close>, and \<open>finishCurrentSet\<close> copies the array with a
  spread, which copies the references, not the objects. So the application state holds
  an explicit store of \<open>Task\<close> objects (\<open>objects\<close>, an address is an index into
  it), and the task arrays are lists of addresses. A serialised snapshot (\<open>AppData\<close>)
  holds the objects by value, as the JSON text does.
\<close>

record Task =
  task_id :: int
  task_text :: string
  task_completed :: bool

type_synonym addr = nat

record 'a PomodoroSet =
  set_id :: int
  set_date :: string
  set_name :: string
  set_completedSessions :: int
  set_tasks :: "'a list"

text \<open>
  An \<open>Achievement\<close> of the source also has an \<open>icon\<close> (an emoji, used by the
  rendering only, left out here) and a \<open>condition\<close> closure. The closure never changes
  and is determined by the \<open>id\<close> of the entry, so it is the function \<open>condition\<close>
  below, indexed by the id; \<open>JSON.stringify\<close> drops it from a snapshot anyway.
  \<open>unlockedDate?: string\<close> is an \<open>option\<close>.
\<close>

record Achievement =
  ach_id :: string
  ach_name :: string
  ach_description :: string
  ach_unlocked :: bool
  ach_unlockedDate :: "string option"

record TimerMode =
  duration :: int
  label :: string
  color :: string

text \<open>
  \<open>AppData\<close> is the object that \<open>JSON.parse\<close> returns for a well-typed snapshot
  (its numbers are integer-valued doubles). The fields
  that \<open>loadData\<close> reads without a default are present; \<open>achievements\<close> and
  \<open>totalBreaks\<close> are optional in the interface, and \<open>tasks\<close> and \<open>history\<close> are
  read with \<open>|| []\<close> (a snapshot written by the earlier version of the program has no
  \<open>history\<close>), so these four are \<open>option\<close>s.
\<close>

record AppData =
  d_currentMode :: string
  d_timeLeft :: int
  d_completedSessions :: int
  d_tasks :: "Task list option"
  d_isDark :: bool
  d_history :: "Task PomodoroSet list option"
  d_achievements :: "Achievement list option"
  d_totalBreaks :: "int option"

text \<open>
  The application object, with the parts of the browser it owns:
  \<^item> \<open>isDark\<close>: whether \<open>document.documentElement\<close> has the class \<open>dark\<close>;
  \<^item> \<open>objects\<close>: the store of \<open>Task\<close> objects;
  \<^item> \<open>localStorage\<close>: the value stored under the key \<open>focusAppData\<close>;
  \<^item> \<open>timer\<close>, \<open>intervals\<close>, \<open>nextHandle\<close>: the handle in \<open>this.timer\<close>, the
    handles of the intervals that are live, and the next handle \<open>setInterval\<close> returns;
  \<^item> \<open>pending\<close>: the modes of the \<open>switchMode\<close> calls scheduled with
    \<open>setTimeout\<close> and not yet run, oldest first;
  \<^item> \<open>notified\<close>: the ids of the achievements passed to
    \<open>showAchievementNotification\<close>, oldest first.
  \<open>currentMode\<close> is a string: the \<open>ModeType\<close> of the source is checked by the
  compiler only, and \<open>loadData\<close> and \<open>importData\<close> cast whatever string the snapshot
  holds. Rendering, sounds and character messages are not modelled.
\<close>

record FocusPopApp =
  currentMode :: string
  timeLeft :: int
  isRunning :: bool
  timer :: "nat option"
  completedSessions :: int
  tasks :: "addr list"
  history :: "addr PomodoroSet list"
  achievements :: "Achievement list"
  totalBreaks :: int
  isDark :: bool
  objects :: "Task list"
  localStorage :: "AppData option"
  intervals :: "nat list"
  nextHandle :: nat
  pending :: "string list"
  notified :: "string list"

datatype error = TypeError

text \<open>
  A method that can throw returns \<open>Inl (e, s)\<close> with the state \<open>s\<close> the object is
  left in when the exception leaves the method, and \<open>Inr s\<close> when it returns.
\<close>

type_synonym 'a result = "(error \<times> 'a) + 'a"

fun state_of :: "'a result \<Rightarrow> 'a" where
  "state_of (Inl (e, s)) = s"
| "state_of (Inr s) = s"

section \<open>Configuration\<close>

text \<open>
  \<open>this.modes[mode]\<close>: \<open>None\<close> is JavaScript's \<open>undefined\<close> for a string that is
  not a key of the table. (The names inherited from \<open>Object.prototype\<close>, such as
  \<open>constructor\<close>, are not modelled; no theorem below is about them.)
\<close>

definition modes :: "string \<Rightarrow> TimerMode option" where
  "modes mode =
     (if mode = ''work'' then
        Some \<lparr>duration = 25 * 60,
              label = ''Well done! You just completed 25 minutes of deep focus. Keep the momentum going!'',
              color = ''work''\<rparr>
      else if mode = ''short-break'' then
        Some \<lparr>duration = 5 * 60,
              label = ''Break's over! Hope you feel refreshed. Ready to dive back in?'',
              color = ''short-break''\<rparr>
      else if mode = ''long-break'' then
        Some \<lparr>duration = 15 * 60,
              label = ''Great rest! Now that you're recharged, let's get back to making progress.'',
              color = ''long-break''\<rparr>
      else None)"

definition locked :: "string \<Rightarrow> string \<Rightarrow> string \<Rightarrow> Achievement" where
  "locked i n d =
     \<lparr>ach_id = i, ach_name = n, ach_description = d,
      ach_unlocked = False, ach_unlockedDate = None\<rparr>"

definition default_achievements :: "Achievement list" where
  "default_achievements =
     [locked ''first-blood'' ''First Blood'' ''Complete your very first Pomodoro session'',
      locked ''getting-serious'' ''Getting Serious Now'' ''Complete a full set of 8 sessions'',
      locked ''procrastination-slayer'' ''Procrastination Slayer'' ''Complete 3 sets in your history'',
      locked ''night-owl'' ''Night Owl Warrior'' ''Complete a session after 10 PM'',
      locked ''early-bird'' ''Early Bird Gets the Worm'' ''Complete a session before 7 AM'',
      locked ''task-master'' ''Task Demolition Expert'' ''Complete 10 tasks across all your sets'',
      locked ''marathon'' ''Marathon Legend'' ''Complete 5 sets in your history'',
      locked ''consistency'' ''Habit Hacker'' ''Complete 10 total sessions'',
      locked ''overachiever'' ''Certified Overachiever'' ''Complete 50 total sessions'',
      locked ''multitasker'' ''Multitasking Myth Buster'' ''Complete a set with 5 or more tasks'',
      locked ''speed-demon'' ''Speed Demon'' ''Complete 3 sessions in a row without long breaks'',
      locked ''zen-master'' ''Zen Master'' ''Complete 20 break sessions'']"

text \<open>The field initialisers of the class: the object before the constructor body runs.\<close>

definition initial :: FocusPopApp where
  "initial =
     \<lparr>currentMode = ''work'', timeLeft = 25 * 60, isRunning = False, timer = None,
      completedSessions = 0, tasks = [], history = [],
      achievements = default_achievements, totalBreaks = 0, isDark = False,
      objects = [], localStorage = None, intervals = [], nextHandle = 1,
      pending = [], notified = []\<rparr>"

section \<open>The store of Task objects\<close>

text \<open>
  \<open>deref\<close> reads the objects an array of references points to. A JavaScript reference
  never dangles; the theorems that read through references assume that the addresses
  are inside the store.
\<close>

definition deref :: "Task list \<Rightarrow> addr list \<Rightarrow> Task list" where
  "deref h rs = map (\<lambda>r. h ! r) rs"

definition deref_set :: "Task list \<Rightarrow> addr PomodoroSet \<Rightarrow> Task PomodoroSet" where
  "deref_set h st =
     \<lparr>set_id = set_id st, set_date = set_date st, set_name = set_name st,
      set_completedSessions = set_completedSessions st,
      set_tasks = deref h (set_tasks st)\<rparr>"

text \<open>\<open>JSON.parse\<close> creates new objects: \<open>alloc\<close> appends them to the store.\<close>

definition alloc :: "Task list \<Rightarrow> Task list \<Rightarrow> addr list \<times> Task list" where
  "alloc ts h = ([length h ..< length h + length ts], h @ ts)"

fun alloc_history :: "Task PomodoroSet list \<Rightarrow> Task list \<Rightarrow> addr PomodoroSet list \<times> Task list" where
  "alloc_history [] h = ([], h)"
| "alloc_history (st # sts) h =
     (let (rs, h1) = alloc (set_tasks st) h;
          (sts', h2) = alloc_history sts h1
      in (\<lparr>set_id = set_id st, set_date = set_date st, set_name = set_name st,
           set_completedSessions = set_completedSessions st, set_tasks = rs\<rparr> # sts', h2))"

section \<open>Numbers\<close>

text \<open>
  The sum of two integer-valued doubles is the exact sum, rounded to the nearest double
  with ties going to the even significand: \<open>bitlen\<close> is the number of binary digits,
  \<open>round_double\<close> rounds an integer to 53 significant binary digits. Integers up to
  \<open>2 ^ 53\<close> in magnitude are doubles themselves. (A sum of magnitude \<open>2 ^ 1024\<close>
  or more, which JavaScript gives as \<open>Infinity\<close>, is outside the model.)
  \<open>x++\<close> is \<open>js_add x 1\<close> and \<open>x--\<close> is \<open>js_add x (- 1)\<close>.
\<close>

fun bitlen :: "nat \<Rightarrow> nat" where
  "bitlen n = (if n = 0 then 0 else Suc (bitlen (n div 2)))"

declare bitlen.simps [simp del]

definition round_double :: "int \<Rightarrow> int" where
  "round_double n =
     (if \<bar>n\<bar> \<le> 2 ^ 53 then n
      else
        (let m = nat \<bar>n\<bar>;
             u = 2 ^ (bitlen m - 53);
             q = m div u;
             r = m mod u;
             k = (if 2 * r < u \<or> (2 * r = u \<and> even q) then q else q + 1)
         in sgn n * int (k * u)))"

definition js_add :: "int \<Rightarrow> int \<Rightarrow> int" where
  "js_add a b = round_double (a + b)"

text \<open>
  The remainder operator of JavaScript truncates towards zero: the result has the sign
  of the dividend. It is exact on doubles.
\<close>

definition js_rem :: "int \<Rightarrow> int \<Rightarrow> int" where
  "js_rem a b = sgn a * (\<bar>a\<bar> mod \<bar>b\<bar>)"

section \<open>Achievements\<close>

definition getCompletedSessions :: "FocusPopApp \<Rightarrow> int" where
  "getCompletedSessions app = completedSessions app"

definition getHistory :: "FocusPopApp \<Rightarrow> Task PomodoroSet list" where
  "getHistory app = map (deref_set (objects app)) (history app)"

definition getTotalBreaks :: "FocusPopApp \<Rightarrow> int" where
  "getTotalBreaks app = totalBreaks app"

text \<open>
  The \<open>condition\<close> closure of the table entry with the given id. \<open>hour\<close> is the value
  of \<open>new Date().getHours()\<close>. \<open>reduce\<close> with a start value is a left fold; the
  sums are sums of doubles.
\<close>

definition condition :: "string \<Rightarrow> nat \<Rightarrow> FocusPopApp \<Rightarrow> bool" where
  "condition aid hour app =
     (if aid = ''first-blood'' then getCompletedSessions app \<ge> 1
      else if aid = ''getting-serious'' then
        list_ex (\<lambda>st. set_completedSessions st \<ge> 8) (getHistory app)
      else if aid = ''procrastination-slayer'' then length (getHistory app) \<ge> 3
      else if aid = ''night-owl'' then hour \<ge> 22 \<and> getCompletedSessions app \<ge> 1
      else if aid = ''early-bird'' then hour < 7 \<and> getCompletedSessions app \<ge> 1
      else if aid = ''task-master'' then
        foldl (\<lambda>sum st. js_add sum (int (length (filter task_completed (set_tasks st)))))
          0 (getHistory app) \<ge> 10
      else if aid = ''marathon'' then length (getHistory app) \<ge> 5
      else if aid = ''consistency'' then
        js_add (foldl (\<lambda>sum st. js_add sum (set_completedSessions st)) 0 (getHistory app))
          (getCompletedSessions app) \<ge> 10
      else if aid = ''overachiever'' then
        js_add (foldl (\<lambda>sum st. js_add sum (set_completedSessions st)) 0 (getHistory app))
          (getCompletedSessions app) \<ge> 50
      else if aid = ''multitasker'' then
        list_ex (\<lambda>st. length (set_tasks st) \<ge> 5) (getHistory app)
      else if aid = ''speed-demon'' then getCompletedSessions app \<ge> 3
      else if aid = ''zen-master'' then getTotalBreaks app \<ge> 20
      else False)"

section \<open>Persistence: saveData\<close>

text \<open>
  \<open>snapshot\<close> is the object \<open>data\<close> that \<open>saveData\<close> (and \<open>exportData\<close>)
  builds, as \<open>JSON.parse (JSON.stringify data)\<close> gives it back: the tasks by value,
  the achievements without their closures.
\<close>

definition snapshot :: "FocusPopApp \<Rightarrow> AppData" where
  "snapshot app =
     \<lparr>d_currentMode = currentMode app,
      d_timeLeft = timeLeft app,
      d_completedSessions = completedSessions app,
      d_tasks = Some (deref (objects app) (tasks app)),
      d_isDark = isDark app,
      d_history = Some (map (deref_set (objects app)) (history app)),
      d_achievements = Some (achievements app),
      d_totalBreaks = Some (totalBreaks app)\<rparr>"

definition saveData :: "FocusPopApp \<Rightarrow> FocusPopApp" where
  "saveData app = app\<lparr>localStorage := Some (snapshot app)\<rparr>"

text \<open>
  \<open>checkAchievements\<close>: the \<open>forEach\<close> loop over the table, in the table's order.
  \<open>check_loop\<close> returns the table after the loop and \<open>newUnlocks\<close>. The conditions
  read the sessions, the history and the break counter only, which the loop does not
  change, so they are evaluated on the state before the loop. \<open>now\<close> is
  \<open>new Date().toLocaleString()\<close>.
\<close>

fun check_loop :: "string \<Rightarrow> nat \<Rightarrow> FocusPopApp \<Rightarrow> Achievement list \<Rightarrow> Achievement list
    \<Rightarrow> Achievement list \<times> Achievement list" where
  "check_loop now hour app [] newUnlocks = ([], newUnlocks)"
| "check_loop now hour app (a # as) newUnlocks =
     (if \<not> ach_unlocked a \<and> condition (ach_id a) hour app then
        (let a' = a\<lparr>ach_unlocked := True, ach_unlockedDate := Some now\<rparr>;
             (as', n') = check_loop now hour app as (newUnlocks @ [a'])
         in (a' # as', n'))
      else
        (let (as', n') = check_loop now hour app as newUnlocks
         in (a # as', n')))"

definition showAchievementNotification :: "Achievement \<Rightarrow> FocusPopApp \<Rightarrow> FocusPopApp" where
  "showAchievementNotification a app = app\<lparr>notified := notified app @ [ach_id a]\<rparr>"

definition checkAchievements :: "string \<Rightarrow> nat \<Rightarrow> FocusPopApp \<Rightarrow> FocusPopApp" where
  "checkAchievements now hour app =
     (let (as', newUnlocks) = check_loop now hour app (achievements app) [];
          app1 = app\<lparr>achievements := as'\<rparr>
      in (case newUnlocks of
            [] \<Rightarrow> app1
          | a # _ \<Rightarrow> saveData (showAchievementNotification a app1)))"

section \<open>The timer\<close>

text \<open>
  \<open>switchMode\<close>: returns at once while running. Otherwise it assigns \<open>currentMode\<close>
  and then reads \<open>this.modes[mode].duration\<close>, which throws a \<open>TypeError\<close> when
  \<open>mode\<close> is not in the table.
\<close>

definition switchMode :: "string \<Rightarrow> FocusPopApp \<Rightarrow> FocusPopApp result" where
  "switchMode mode app =
     (if isRunning app then Inr app
      else
        (let app1 = app\<lparr>currentMode := mode\<rparr>
         in (case modes mode of
               None \<Rightarrow> Inl (TypeError, app1)
             | Some m \<Rightarrow> Inr (saveData (app1\<lparr>timeLeft := duration m\<rparr>)))))"

definition pauseTimer :: "FocusPopApp \<Rightarrow> FocusPopApp" where
  "pauseTimer app =
     (let app1 = app\<lparr>isRunning := False\<rparr>
      in (case timer app1 of
            None \<Rightarrow> app1
          | Some h \<Rightarrow> app1\<lparr>intervals := removeAll h (intervals app1)\<rparr>))"

text \<open>
  \<open>resetTimer\<close> reads \<open>this.modes[this.currentMode].duration\<close> after pausing.
\<close>

definition resetTimer :: "FocusPopApp \<Rightarrow> FocusPopApp result" where
  "resetTimer app =
     (let app1 = pauseTimer app
      in (case modes (currentMode app1) of
            None \<Rightarrow> Inl (TypeError, app1)
          | Some m \<Rightarrow> Inr (saveData (app1\<lparr>timeLeft := duration m\<rparr>))))"

text \<open>
  \<open>completeSession\<close>. \<open>this.completedSessions++\<close> is an addition of doubles. \<open>showNotification (this.modes[this.currentMode].label)\<close> throws
  when the current mode is not in the table. The two \<open>setTimeout\<close> calls that switch
  the mode append to \<open>pending\<close>.
\<close>

definition completeSession :: "string \<Rightarrow> nat \<Rightarrow> FocusPopApp \<Rightarrow> FocusPopApp result" where
  "completeSession now hour app =
     (let app1 = pauseTimer app;
          app2 = (if currentMode app1 = ''work''
                  then app1\<lparr>completedSessions := js_add (completedSessions app1) 1\<rparr>
                  else app1)
      in (case modes (currentMode app2) of
            None \<Rightarrow> Inl (TypeError, app2)
          | Some m \<Rightarrow>
              (let app3 = checkAchievements now hour app2;
                   app4 = (if currentMode app3 = ''work'' then
                             (let nextMode = (if js_rem (completedSessions app3) 4 = 0
                                              then ''long-break'' else ''short-break'')
                              in app3\<lparr>pending := pending app3 @ [nextMode]\<rparr>)
                           else app3\<lparr>pending := pending app3 @ [''work'']\<rparr>)
               in Inr (saveData app4))))"

text \<open>
  \<open>startTimer\<close> sets the flag and creates an interval; \<open>tick\<close> is the body of the
  interval's callback, which starts with \<open>this.timeLeft--\<close>.
\<close>

definition startTimer :: "FocusPopApp \<Rightarrow> FocusPopApp" where
  "startTimer app =
     app\<lparr>isRunning := True, timer := Some (nextHandle app),
         intervals := nextHandle app # intervals app,
         nextHandle := nextHandle app + 1\<rparr>"

definition tick :: "string \<Rightarrow> nat \<Rightarrow> FocusPopApp \<Rightarrow> FocusPopApp result" where
  "tick now hour app =
     (let app1 = app\<lparr>timeLeft := js_add (timeLeft app) (- 1)\<rparr>
      in if timeLeft app1 \<le> 0 then completeSession now hour app1 else Inr app1)"

definition toggleTheme :: "FocusPopApp \<Rightarrow> FocusPopApp" where
  "toggleTheme app = saveData (app\<lparr>isDark := \<not> isDark app\<rparr>)"

section \<open>Tasks\<close>

text \<open>
  The arrays themselves are never shared: each one is made by a literal, a spread,
  \<open>filter\<close> or \<open>JSON.parse\<close> and is held by one field only, so an array is a list
  value here and \<open>push\<close> returns the longer list.

  \<open>addTask\<close>: \<open>text\<close> is the trimmed value of the input field, \<open>now\<close> is
  \<open>Date.now()\<close>. The new object gets the next free address.
\<close>

definition addTask :: "string \<Rightarrow> int \<Rightarrow> FocusPopApp \<Rightarrow> FocusPopApp" where
  "addTask text now app =
     (if text \<noteq> [] then
        (let task = \<lparr>task_id = now, task_text = text, task_completed = False\<rparr>
         in saveData (app\<lparr>tasks := tasks app @ [length (objects app)],
                          objects := objects app @ [task]\<rparr>))
      else app)"

definition toggleTask :: "int \<Rightarrow> FocusPopApp \<Rightarrow> FocusPopApp" where
  "toggleTask taskId app =
     (case find (\<lambda>r. task_id (objects app ! r) = taskId) (tasks app) of
        None \<Rightarrow> app
      | Some r \<Rightarrow>
          (let task = objects app ! r
           in saveData (app\<lparr>objects :=
                (objects app)[r := task\<lparr>task_completed := \<not> task_completed task\<rparr>]\<rparr>)))"

definition deleteTask :: "int \<Rightarrow> FocusPopApp \<Rightarrow> FocusPopApp" where
  "deleteTask taskId app =
     saveData (app\<lparr>tasks := filter (\<lambda>r. task_id (objects app ! r) \<noteq> taskId) (tasks app)\<rparr>)"

section \<open>History\<close>

text \<open>The decimal numeral of a number, as a template literal prints it.\<close>

fun string_of_nat :: "nat \<Rightarrow> string" where
  "string_of_nat n =
     (if n < 10 then [''0123456789'' ! n]
      else string_of_nat (n div 10) @ [''0123456789'' ! (n mod 10)])"

declare string_of_nat.simps [simp del]

text \<open>
  \<open>finishCurrentSet\<close>: \<open>name\<close> is the trimmed value of the set-name input, \<open>now\<close>
  is \<open>Date.now()\<close> and \<open>date\<close> is \<open>new Date().toLocaleString()\<close>. The spread
  \<open>[...this.tasks]\<close> makes a new array of the same references.
\<close>

definition finishCurrentSet :: "string \<Rightarrow> int \<Rightarrow> string \<Rightarrow> FocusPopApp \<Rightarrow> FocusPopApp" where
  "finishCurrentSet name now date app =
     (let setName = (if name \<noteq> [] then name
                     else ''Set '' @ string_of_nat (length (history app) + 1));
          setData = \<lparr>set_id = now, set_date = date, set_name = setName,
                     set_completedSessions = completedSessions app,
                     set_tasks = tasks app\<rparr>
      in saveData (app\<lparr>history := setData # history app,
                       completedSessions := 0,
                       tasks := []\<rparr>))"

definition startNewSet :: "bool \<Rightarrow> string \<Rightarrow> int \<Rightarrow> string \<Rightarrow> FocusPopApp \<Rightarrow> FocusPopApp" where
  "startNewSet confirmed name now date app =
     (if completedSessions app > 0 \<or> length (tasks app) > 0 then
        (if confirmed then finishCurrentSet name now date app else app)
      else app)"

definition deleteHistory :: "int \<Rightarrow> FocusPopApp \<Rightarrow> FocusPopApp" where
  "deleteHistory setId app =
     saveData (app\<lparr>history := filter (\<lambda>s. set_id s \<noteq> setId) (history app)\<rparr>)"

section \<open>Persistence: loadData and importData\<close>

text \<open>
  The loop that restores the achievements: for each saved entry, the first table entry
  with the same id gets the saved \<open>unlocked\<close> and \<open>unlockedDate\<close>.
\<close>

fun restore_one :: "Achievement \<Rightarrow> Achievement list \<Rightarrow> Achievement list" where
  "restore_one savedAch [] = []"
| "restore_one savedAch (a # as) =
     (if ach_id a = ach_id savedAch then
        a\<lparr>ach_unlocked := ach_unlocked savedAch,
          ach_unlockedDate := ach_unlockedDate savedAch\<rparr> # as
      else a # restore_one savedAch as)"

definition restore_achievements :: "Achievement list \<Rightarrow> Achievement list \<Rightarrow> Achievement list" where
  "restore_achievements saved table = foldl (\<lambda>t savedAch. restore_one savedAch t) table saved"

text \<open>
  \<open>loadData\<close>. \<open>x || []\<close> and \<open>x || 0\<close> give the default for a missing field (and
  for \<open>0\<close>, where the default is the same). \<open>load_fields\<close> is the block of
  assignments from the snapshot (the fields, the achievements, the theme); the last
  statement that changes the state is \<open>this.switchMode (this.currentMode)\<close>.
\<close>

definition load_fields :: "AppData \<Rightarrow> FocusPopApp \<Rightarrow> FocusPopApp" where
  "load_fields parsedData app =
     (let (ts, h1) = alloc (case d_tasks parsedData of None \<Rightarrow> [] | Some t \<Rightarrow> t) (objects app);
          (hs, h2) = alloc_history (case d_history parsedData of None \<Rightarrow> [] | Some h \<Rightarrow> h) h1;
          app1 = app\<lparr>currentMode := d_currentMode parsedData,
                     timeLeft := d_timeLeft parsedData,
                     completedSessions := d_completedSessions parsedData,
                     tasks := ts,
                     history := hs,
                     totalBreaks := (case d_totalBreaks parsedData of None \<Rightarrow> 0 | Some n \<Rightarrow> n),
                     objects := h2\<rparr>;
          app2 = (case d_achievements parsedData of
                    None \<Rightarrow> app1
                  | Some saved \<Rightarrow>
                      app1\<lparr>achievements := restore_achievements saved (achievements app1)\<rparr>)
      in app2\<lparr>isDark := d_isDark parsedData\<rparr>)"

definition loadData :: "FocusPopApp \<Rightarrow> FocusPopApp result" where
  "loadData app =
     (case localStorage app of
        None \<Rightarrow> Inr app
      | Some parsedData \<Rightarrow>
          (let app3 = load_fields parsedData app
           in switchMode (currentMode app3) app3))"

text \<open>
  The constructor: the field initialisers, then \<open>loadData\<close> on what the browser has
  stored. A page reload constructs a new object over the same \<open>localStorage\<close>.
\<close>

definition construct :: "AppData option \<Rightarrow> FocusPopApp result" where
  "construct stored = loadData (initial\<lparr>localStorage := stored\<rparr>)"

text \<open>
  \<open>importData\<close>, the \<open>onload\<close> handler of the file reader. The file either fails to
  parse, or parses to something that is not an object (or to \<open>null\<close>), or parses to an
  object. \<open>confirmed\<close> is the answer to the \<open>confirm\<close> dialog. The handler catches
  every exception and shows one \<open>alert\<close>: the outcome \<open>Failed\<close>.
  \<open>x || d\<close> gives \<open>d\<close> for the empty string and for \<open>0\<close>.
  \<open>import_fields\<close> is the block of assignments from the snapshot (the fields, the
  theme, the achievements), which comes before the call of \<open>switchMode\<close>.

  The snapshot is well typed: every field it has holds a value of the type the
  interface \<open>AppData\<close> declares. What the handler does with an ill-typed field is
  not modelled (an \<open>achievements\<close> field that is not an array makes \<open>forEach\<close>
  throw before \<open>switchMode\<close> is called, a \<open>tasks\<close> field that is not an array
  makes \<open>renderTasks\<close> throw after it, and the application object is left holding
  values outside its declared types). The statements below use \<open>importData\<close> on
  given, well-typed snapshots only; none ranges over all files.
\<close>

datatype import_file = Unparsable | NotAnObject | Object AppData

datatype import_outcome = Imported | Cancelled | Failed

definition import_fields :: "AppData \<Rightarrow> FocusPopApp \<Rightarrow> FocusPopApp" where
  "import_fields importedData app =
     (let (ts, h1) = alloc (case d_tasks importedData of None \<Rightarrow> [] | Some t \<Rightarrow> t) (objects app);
          (hs, h2) = alloc_history (case d_history importedData of None \<Rightarrow> [] | Some h \<Rightarrow> h) h1;
          app1 = app\<lparr>currentMode := (if d_currentMode importedData = [] then ''work''
                                      else d_currentMode importedData),
                     timeLeft := (if d_timeLeft importedData = 0 then 25 * 60
                                  else d_timeLeft importedData),
                     completedSessions := d_completedSessions importedData,
                     tasks := ts,
                     history := hs,
                     totalBreaks := (case d_totalBreaks importedData of None \<Rightarrow> 0 | Some n \<Rightarrow> n),
                     objects := h2\<rparr>;
          app2 = app1\<lparr>isDark := d_isDark importedData\<rparr>
      in (case d_achievements importedData of
            None \<Rightarrow> app2
          | Some saved \<Rightarrow>
              app2\<lparr>achievements := restore_achievements saved (achievements app2)\<rparr>))"

definition importData :: "import_file \<Rightarrow> bool \<Rightarrow> FocusPopApp \<Rightarrow> import_outcome \<times> FocusPopApp" where
  "importData file confirmed app =
     (case file of
        Unparsable \<Rightarrow> (Failed, app)
      | NotAnObject \<Rightarrow> (Failed, app)
      | Object importedData \<Rightarrow>
          (if \<not> confirmed then (Cancelled, app)
           else
             (let app3 = import_fields importedData app
              in (case switchMode (currentMode app3) app3 of
                    Inl (e, app4) \<Rightarrow> (Failed, app4)
                  | Inr app4 \<Rightarrow> (Imported, saveData app4)))))"

section \<open>Events\<close>

text \<open>
  What can happen to a running page: a click on a control, a tick of a live interval,
  the oldest scheduled mode switch coming due, a reload. An exception that leaves an
  event handler is reported on the console and the page goes on with the state as
  it is. A tick happens only when an interval is live.
\<close>

datatype event =
    Start
  | Tick string nat
  | Pause
  | Reset
  | SwitchMode string
  | Deferred
  | ToggleTheme
  | AddTask string int
  | ToggleTask int
  | DeleteTask int
  | FinishCurrentSet string int string
  | StartNewSet bool string int string
  | DeleteHistory int
  | Import import_file bool
  | Reload

fun exec :: "event \<Rightarrow> FocusPopApp \<Rightarrow> FocusPopApp" where
  "exec Start app = startTimer app"
| "exec (Tick now hour) app = (if intervals app = [] then app else state_of (tick now hour app))"
| "exec Pause app = pauseTimer app"
| "exec Reset app = state_of (resetTimer app)"
| "exec (SwitchMode mode) app = state_of (switchMode mode app)"
| "exec Deferred app =
     (case pending app of
        [] \<Rightarrow> app
      | mode # rest \<Rightarrow> state_of (switchMode mode (app\<lparr>pending := rest\<rparr>)))"
| "exec ToggleTheme app = toggleTheme app"
| "exec (AddTask text now) app = addTask text now app"
| "exec (ToggleTask taskId) app = toggleTask taskId app"
| "exec (DeleteTask taskId) app = deleteTask taskId app"
| "exec (FinishCurrentSet name now date) app = finishCurrentSet name now date app"
| "exec (StartNewSet confirmed name now date) app = startNewSet confirmed name now date app"
| "exec (DeleteHistory setId) app = deleteHistory setId app"
| "exec (Import file confirmed) app = snd (importData file confirmed app)"
| "exec Reload app = state_of (construct (localStorage app))"

fun run :: "event list \<Rightarrow> FocusPopApp \<Rightarrow> FocusPopApp" where
  "run [] app = app"
| "run (e # es) app = run es (exec e app)"

section \<open>Notions used by the properties\<close>

text \<open>\<open>timeLeft\<close> lies between 0 and the duration of the current mode.\<close>

definition in_range :: "FocusPopApp \<Rightarrow> bool" where
  "in_range app =
     (case modes (currentMode app) of
        None \<Rightarrow> False
      | Some m \<Rightarrow> 0 \<le> timeLeft app \<and> timeLeft app \<le> duration m)"

text \<open>
  \<open>decimal_of n ds\<close>: the string \<open>ds\<close> is the decimal numeral of the positive number
  \<open>n\<close>. It consists of digits (the characters with codes 48 to 57), does not start
  with a zero, and its value, read digit by digit from the left, is \<open>n\<close>.
\<close>

definition is_digit :: "char \<Rightarrow> bool" where
  "is_digit c \<longleftrightarrow> (48::nat) \<le> of_char c \<and> of_char c \<le> (57::nat)"

definition decimal_value :: "string \<Rightarrow> nat" where
  "decimal_value ds = foldl (\<lambda>v c. 10 * v + (of_char c - 48)) 0 ds"

definition decimal_of :: "nat \<Rightarrow> string \<Rightarrow> bool" where
  "decimal_of n ds \<longleftrightarrow>
     ds \<noteq> [] \<and> list_all is_digit ds \<and> hd ds \<noteq> CHR ''0'' \<and> decimal_value ds = n"

text \<open>
  The events that are not meant to change the history: all but archiving a set,
  deleting a history entry, an import and a reload.
\<close>

fun keeps_history :: "event \<Rightarrow> bool" where
  "keeps_history (FinishCurrentSet name now date) = False"
| "keeps_history (StartNewSet confirmed name now date) = False"
| "keeps_history (DeleteHistory setId) = False"
| "keeps_history (Import file confirmed) = False"
| "keeps_history Reload = False"
| "keeps_history e = True"

fun is_import :: "event \<Rightarrow> bool" where
  "is_import (Import file confirmed) = True"
| "is_import e = False"

text \<open>
  \<open>synced\<close>: the table is the default table up to the unlock flags and dates, and
  what is stored records the table (nothing is stored only while nothing is unlocked).
\<close>

definition relock :: "Achievement \<Rightarrow> Achievement" where
  "relock a = a\<lparr>ach_unlocked := False, ach_unlockedDate := None\<rparr>"

definition synced :: "FocusPopApp \<Rightarrow> bool" where
  "synced app =
     (map relock (achievements app) = default_achievements
      \<and> (case localStorage app of
            None \<Rightarrow> achievements app = default_achievements
          | Some d \<Rightarrow> d_achievements d = Some (achievements app)))"

section \<open>Basic facts\<close>

text \<open>What each helper leaves alone.\<close>

lemma initial_simps [simp]:
  "currentMode initial = ''work''"
  "timeLeft initial = 1500"
  "isRunning initial = False"
  "timer initial = None"
  "completedSessions initial = 0"
  "tasks initial = []"
  "history initial = []"
  "achievements initial = default_achievements"
  "totalBreaks initial = 0"
  "isDark initial = False"
  "objects initial = []"
  "localStorage initial = None"
  "intervals initial = []"
  "nextHandle initial = 1"
  "pending initial = []"
  "notified initial = []"
  by (simp_all add: initial_def)

lemma saveData_simps [simp]:
  "currentMode (saveData app) = currentMode app"
  "timeLeft (saveData app) = timeLeft app"
  "isRunning (saveData app) = isRunning app"
  "timer (saveData app) = timer app"
  "completedSessions (saveData app) = completedSessions app"
  "tasks (saveData app) = tasks app"
  "history (saveData app) = history app"
  "achievements (saveData app) = achievements app"
  "totalBreaks (saveData app) = totalBreaks app"
  "isDark (saveData app) = isDark app"
  "objects (saveData app) = objects app"
  "intervals (saveData app) = intervals app"
  "nextHandle (saveData app) = nextHandle app"
  "pending (saveData app) = pending app"
  "notified (saveData app) = notified app"
  "localStorage (saveData app) = Some (snapshot app)"
  by (simp_all add: saveData_def)

lemma checkAchievements_frame [simp]:
  "currentMode (checkAchievements now hour app) = currentMode app"
  "timeLeft (checkAchievements now hour app) = timeLeft app"
  "isRunning (checkAchievements now hour app) = isRunning app"
  "timer (checkAchievements now hour app) = timer app"
  "completedSessions (checkAchievements now hour app) = completedSessions app"
  "tasks (checkAchievements now hour app) = tasks app"
  "history (checkAchievements now hour app) = history app"
  "totalBreaks (checkAchievements now hour app) = totalBreaks app"
  "isDark (checkAchievements now hour app) = isDark app"
  "objects (checkAchievements now hour app) = objects app"
  "intervals (checkAchievements now hour app) = intervals app"
  "nextHandle (checkAchievements now hour app) = nextHandle app"
  "pending (checkAchievements now hour app) = pending app"
  by (simp_all add: checkAchievements_def showAchievementNotification_def Let_def
        split: prod.splits list.splits)

lemma pauseTimer_frame [simp]:
  "currentMode (pauseTimer app) = currentMode app"
  "timeLeft (pauseTimer app) = timeLeft app"
  "isRunning (pauseTimer app) = False"
  "timer (pauseTimer app) = timer app"
  "completedSessions (pauseTimer app) = completedSessions app"
  "tasks (pauseTimer app) = tasks app"
  "history (pauseTimer app) = history app"
  "achievements (pauseTimer app) = achievements app"
  "totalBreaks (pauseTimer app) = totalBreaks app"
  "isDark (pauseTimer app) = isDark app"
  "objects (pauseTimer app) = objects app"
  "localStorage (pauseTimer app) = localStorage app"
  "nextHandle (pauseTimer app) = nextHandle app"
  "pending (pauseTimer app) = pending app"
  "notified (pauseTimer app) = notified app"
  by (simp_all add: pauseTimer_def Let_def split: option.splits)

text \<open>Sums that stay within \<open>2 ^ 53\<close> in magnitude are exact.\<close>

lemma round_double_safe: "\<bar>n\<bar> \<le> 2 ^ 53 \<Longrightarrow> round_double n = n"
  by (simp add: round_double_def)

lemma js_add_safe: "\<bar>a + b\<bar> \<le> 2 ^ 53 \<Longrightarrow> js_add a b = a + b"
  by (simp add: js_add_def round_double_safe)

lemma js_incr_safe: "- (2 ^ 53) \<le> x \<Longrightarrow> x < 2 ^ 53 \<Longrightarrow> js_add x 1 = x + 1"
  by (rule js_add_safe) simp

text \<open>At \<open>2 ^ 53\<close> the increment is lost: \<open>2 ^ 53 + 1\<close> is not a double.\<close>

lemma bitlen_eq: "2 ^ k \<le> n \<Longrightarrow> n < 2 ^ Suc k \<Longrightarrow> bitlen n = Suc k"
proof (induction k arbitrary: n)
  case 0
  then have "n = 1" by simp
  then show ?case by (simp add: bitlen.simps)
next
  case (Suc k)
  then have "n \<noteq> 0" "2 ^ k \<le> n div 2" "n div 2 < 2 ^ Suc k"
    by auto
  then show ?case
    using Suc.IH [of "n div 2"] by (subst bitlen.simps) simp
qed

lemma js_incr_limit: "js_add (2 ^ 53) 1 = 2 ^ 53"
proof -
  have b: "bitlen 9007199254740993 = Suc 53"
    by (rule bitlen_eq) simp_all
  show ?thesis
    by (simp add: js_add_def round_double_def Let_def b)
qed

lemma js_incr_limit_numeral: "js_add 9007199254740992 1 = 9007199254740992"
  using js_incr_limit by simp

lemma js_rem_4: "js_rem a 4 = 0 \<longleftrightarrow> 4 dvd a"
proof -
  have "js_rem a 4 = 0 \<longleftrightarrow> \<bar>a\<bar> mod 4 = 0"
    by (cases "a = 0") (simp_all add: js_rem_def sgn_if)
  also have "\<dots> \<longleftrightarrow> 4 dvd \<bar>a\<bar>"
    by (simp only: dvd_eq_mod_eq_0)
  also have "\<dots> \<longleftrightarrow> 4 dvd a"
    by simp
  finally show ?thesis .
qed

lemma check_loop_map:
  "fst (check_loop now hour app as acc) =
     map (\<lambda>a. if \<not> ach_unlocked a \<and> condition (ach_id a) hour app
               then a\<lparr>ach_unlocked := True, ach_unlockedDate := Some now\<rparr> else a) as"
  by (induction as arbitrary: acc) (simp_all add: Let_def case_prod_beta)

lemma check_loop_new:
  "snd (check_loop now hour app as acc) =
     acc @ map (\<lambda>a. a\<lparr>ach_unlocked := True, ach_unlockedDate := Some now\<rparr>)
             (filter (\<lambda>a. \<not> ach_unlocked a \<and> condition (ach_id a) hour app) as)"
  by (induction as arbitrary: acc) (simp_all add: Let_def case_prod_beta)

section \<open>The session state machine\<close>

text \<open>
  C8. For every mode \<open>m\<close> (in particular \<open>work\<close>, \<open>short-break\<close> and
  \<open>long-break\<close>), \<open>switchMode m\<close> while \<open>isRunning\<close> is true returns without
  changing anything: the mode, the time left and every other part of the state are as
  before.
\<close>

theorem switchMode_running_noop:
  "isRunning app \<Longrightarrow> switchMode mode app = Inr app"
  by (simp add: switchMode_def)

theorem switchMode_running_noop_witness:
  "isRunning (startTimer initial)
   \<and> switchMode ''work'' (startTimer initial) = Inr (startTimer initial)
   \<and> switchMode ''short-break'' (startTimer initial) = Inr (startTimer initial)
   \<and> switchMode ''long-break'' (startTimer initial) = Inr (startTimer initial)"
proof -
  have r: "isRunning (startTimer initial)"
    by (simp add: startTimer_def)
  show ?thesis
    using r switchMode_running_noop [OF r] by simp
qed

text \<open>
  C3. When \<open>completeSession\<close> runs in work mode, \<open>completedSessions\<close> goes up by
  exactly 1 and the mode switch it schedules is to \<open>long-break\<close> if the new count is
  divisible by 4 and to \<open>short-break\<close> otherwise. When it runs in \<open>short-break\<close>
  or \<open>long-break\<close> mode, the count is unchanged and the switch it schedules is to
  \<open>work\<close>. The count is a double: the increment is exact for a count from
  \<open>- 2 ^ 53\<close> up to, and not including, \<open>2 ^ 53\<close>, which is the range of the
  statement about work mode.
\<close>

theorem completeSession_next_mode:
  "(currentMode app = ''work'' \<and> - (2 ^ 53) \<le> completedSessions app
      \<and> completedSessions app < 2 ^ 53 \<longrightarrow>
      (\<exists>app'. completeSession now hour app = Inr app'
         \<and> completedSessions app' = completedSessions app + 1
         \<and> pending app' = pending app @
             [if 4 dvd completedSessions app' then ''long-break'' else ''short-break'']))
   \<and> (currentMode app = ''short-break'' \<or> currentMode app = ''long-break'' \<longrightarrow>
      (\<exists>app'. completeSession now hour app = Inr app'
         \<and> completedSessions app' = completedSessions app
         \<and> pending app' = pending app @ [''work'']))"
proof (intro conjI impI)
  assume w: "currentMode app = ''work'' \<and> - (2 ^ 53) \<le> completedSessions app
      \<and> completedSessions app < 2 ^ 53"
  then have inc: "js_add (completedSessions app) 1 = completedSessions app + 1"
    by (simp add: js_incr_safe)
  show "\<exists>app'. completeSession now hour app = Inr app'
         \<and> completedSessions app' = completedSessions app + 1
         \<and> pending app' = pending app @
             [if 4 dvd completedSessions app' then ''long-break'' else ''short-break'']"
    using w by (auto simp: completeSession_def Let_def modes_def js_rem_4 inc)
next
  assume "currentMode app = ''short-break'' \<or> currentMode app = ''long-break''"
  then show "\<exists>app'. completeSession now hour app = Inr app'
         \<and> completedSessions app' = completedSessions app
         \<and> pending app' = pending app @ [''work'']"
    by (auto simp: completeSession_def Let_def modes_def)
qed

theorem completeSession_next_mode_witness:
  "(\<exists>app'. completeSession ''d'' 12 initial = Inr app'
       \<and> completedSessions app' = 1 \<and> pending app' = [''short-break''])
   \<and> (\<exists>app'. completeSession ''d'' 12 (initial\<lparr>completedSessions := 3\<rparr>) = Inr app'
       \<and> completedSessions app' = 4 \<and> pending app' = [''long-break''])
   \<and> (\<exists>app'. completeSession ''d'' 12 (initial\<lparr>completedSessions := 2 ^ 53 - 1\<rparr>) = Inr app'
       \<and> completedSessions app' = 2 ^ 53 \<and> pending app' = [''long-break''])
   \<and> (\<exists>app'. completeSession ''d'' 12 (initial\<lparr>currentMode := ''long-break''\<rparr>) = Inr app'
       \<and> completedSessions app' = 0 \<and> pending app' = [''work''])"
  using completeSession_next_mode [of initial "''d''" 12]
    completeSession_next_mode [of "initial\<lparr>completedSessions := 3\<rparr>" "''d''" 12]
    completeSession_next_mode [of "initial\<lparr>completedSessions := 2 ^ 53 - 1\<rparr>" "''d''" 12]
    completeSession_next_mode [of "initial\<lparr>currentMode := ''long-break''\<rparr>" "''d''" 12]
  by auto

text \<open>
  Outside that range the model follows the double: a count of \<open>2 ^ 53\<close> (which a
  snapshot can bring in) stays \<open>2 ^ 53\<close>, and the switch scheduled is the one for the
  count as it is stored, \<open>long-break\<close>.
\<close>

lemma completeSession_at_double_limit:
  "\<exists>app'. completeSession ''d'' 12 (initial\<lparr>completedSessions := 2 ^ 53\<rparr>) = Inr app'
       \<and> completedSessions app' = 2 ^ 53 \<and> pending app' = [''long-break'']"
  by (simp add: completeSession_def Let_def modes_def js_rem_4 js_incr_limit_numeral)

text \<open>
  C2. The claim is that completing a break adds 1 to \<open>totalBreaks\<close>. The code never
  assigns \<open>totalBreaks\<close> outside \<open>loadData\<close> and \<open>importData\<close>: at the last
  tick of a short break, with \<open>totalBreaks = 0\<close>, \<open>completeSession\<close> returns with
  \<open>totalBreaks\<close> still 0.
\<close>

theorem completeSession_totalBreaks_unchanged:
  "(let app = (startTimer (state_of (switchMode ''short-break'' initial)))\<lparr>timeLeft := 0\<rparr>
    in currentMode app = ''short-break'' \<and> totalBreaks app = 0
       \<and> (\<exists>app'. completeSession ''d'' 12 app = Inr app' \<and> totalBreaks app' = 0))"
  by (simp add: Let_def switchMode_def modes_def initial_def startTimer_def completeSession_def)

section \<open>The achievement evaluator\<close>

text \<open>
  C9. One pass of \<open>checkAchievements\<close> unlocks every locked achievement whose
  condition holds, entry by entry in the order of the table, and leaves every other
  entry as it is; of the achievements unlocked in the pass, only the first in table order
  is passed to \<open>showAchievementNotification\<close> (none when the pass unlocks nothing).
\<close>

theorem checkAchievements_unlocks_all_notifies_first:
  "achievements (checkAchievements now hour app) =
     map (\<lambda>a. if \<not> ach_unlocked a \<and> condition (ach_id a) hour app
               then a\<lparr>ach_unlocked := True, ach_unlockedDate := Some now\<rparr> else a)
         (achievements app)
   \<and> notified (checkAchievements now hour app) =
       notified app @
         take 1 (map ach_id (filter (\<lambda>a. \<not> ach_unlocked a \<and> condition (ach_id a) hour app)
                               (achievements app)))"
proof -
  obtain as' new where cl: "check_loop now hour app (achievements app) [] = (as', new)"
    by (cases "check_loop now hour app (achievements app) []")
  have a: "as' = map (\<lambda>a. if \<not> ach_unlocked a \<and> condition (ach_id a) hour app
               then a\<lparr>ach_unlocked := True, ach_unlockedDate := Some now\<rparr> else a)
         (achievements app)"
    using check_loop_map [of now hour app "achievements app" "[]"] cl by simp
  have n: "new = map (\<lambda>a. a\<lparr>ach_unlocked := True, ach_unlockedDate := Some now\<rparr>)
             (filter (\<lambda>a. \<not> ach_unlocked a \<and> condition (ach_id a) hour app) (achievements app))"
    using check_loop_new [of now hour app "achievements app" "[]"] cl by simp
  have 1: "achievements (checkAchievements now hour app) = as'"
    by (simp add: checkAchievements_def cl Let_def showAchievementNotification_def split: list.splits)
  have 2: "notified (checkAchievements now hour app) = notified app @ take 1 (map ach_id new)"
    by (simp add: checkAchievements_def cl Let_def showAchievementNotification_def split: list.splits)
  have 3: "map ach_id new = map ach_id (filter (\<lambda>a. \<not> ach_unlocked a \<and> condition (ach_id a) hour app) (achievements app))"
    by (simp add: n comp_def)
  show ?thesis using 1 2 3 a by simp
qed

theorem checkAchievements_unlocks_all_notifies_first_witness:
  "(let app = initial\<lparr>completedSessions := 1\<rparr>;
        app' = checkAchievements ''3 Nov, 23:10'' 23 app
    in map ach_id (filter ach_unlocked (achievements app')) = [''first-blood'', ''night-owl'']
       \<and> notified app' = [''first-blood''])"
proof -
  define app where "app = initial\<lparr>completedSessions := 1\<rparr>"
  define f where "f = (\<lambda>a::Achievement. if \<not> ach_unlocked a \<and> condition (ach_id a) 23 app
               then a\<lparr>ach_unlocked := True, ach_unlockedDate := Some ''3 Nov, 23:10''\<rparr> else a)"
  have e1: "map ach_id (filter ach_unlocked (map f (achievements app)))
      = [''first-blood'', ''night-owl'']"
    unfolding f_def app_def by code_simp
  have e2: "notified app @ take 1 (map ach_id (filter (\<lambda>a. \<not> ach_unlocked a \<and> condition (ach_id a) 23 app)
                               (achievements app))) = [''first-blood'']"
    unfolding app_def by code_simp
  from checkAchievements_unlocks_all_notifies_first [of "''3 Nov, 23:10''" 23 app]
  show ?thesis
    unfolding Let_def app_def [symmetric] using e1 e2 by (simp add: f_def)
qed

section \<open>What the operations leave alone\<close>

lemma switchMode_frame [simp]:
  "isRunning (state_of (switchMode m app)) = isRunning app"
  "timer (state_of (switchMode m app)) = timer app"
  "completedSessions (state_of (switchMode m app)) = completedSessions app"
  "tasks (state_of (switchMode m app)) = tasks app"
  "history (state_of (switchMode m app)) = history app"
  "achievements (state_of (switchMode m app)) = achievements app"
  "totalBreaks (state_of (switchMode m app)) = totalBreaks app"
  "isDark (state_of (switchMode m app)) = isDark app"
  "objects (state_of (switchMode m app)) = objects app"
  "intervals (state_of (switchMode m app)) = intervals app"
  "nextHandle (state_of (switchMode m app)) = nextHandle app"
  "pending (state_of (switchMode m app)) = pending app"
  "notified (state_of (switchMode m app)) = notified app"
  by (simp_all add: switchMode_def Let_def split: option.splits)

lemma resetTimer_frame [simp]:
  "isRunning (state_of (resetTimer app)) = False"
  "timer (state_of (resetTimer app)) = timer app"
  "currentMode (state_of (resetTimer app)) = currentMode app"
  "completedSessions (state_of (resetTimer app)) = completedSessions app"
  "tasks (state_of (resetTimer app)) = tasks app"
  "history (state_of (resetTimer app)) = history app"
  "achievements (state_of (resetTimer app)) = achievements app"
  "totalBreaks (state_of (resetTimer app)) = totalBreaks app"
  "isDark (state_of (resetTimer app)) = isDark app"
  "objects (state_of (resetTimer app)) = objects app"
  "nextHandle (state_of (resetTimer app)) = nextHandle app"
  "pending (state_of (resetTimer app)) = pending app"
  "notified (state_of (resetTimer app)) = notified app"
  by (simp_all add: resetTimer_def Let_def split: option.splits)

lemma completeSession_frame [simp]:
  "isRunning (state_of (completeSession now hour app)) = False"
  "timer (state_of (completeSession now hour app)) = timer app"
  "currentMode (state_of (completeSession now hour app)) = currentMode app"
  "timeLeft (state_of (completeSession now hour app)) = timeLeft app"
  "tasks (state_of (completeSession now hour app)) = tasks app"
  "history (state_of (completeSession now hour app)) = history app"
  "totalBreaks (state_of (completeSession now hour app)) = totalBreaks app"
  "isDark (state_of (completeSession now hour app)) = isDark app"
  "objects (state_of (completeSession now hour app)) = objects app"
  "nextHandle (state_of (completeSession now hour app)) = nextHandle app"
  by (simp_all add: completeSession_def Let_def split: option.splits)

lemma tick_frame [simp]:
  "timer (state_of (tick now hour app)) = timer app"
  "currentMode (state_of (tick now hour app)) = currentMode app"
  "timeLeft (state_of (tick now hour app)) = js_add (timeLeft app) (- 1)"
  "tasks (state_of (tick now hour app)) = tasks app"
  "history (state_of (tick now hour app)) = history app"
  "totalBreaks (state_of (tick now hour app)) = totalBreaks app"
  "isDark (state_of (tick now hour app)) = isDark app"
  "objects (state_of (tick now hour app)) = objects app"
  "nextHandle (state_of (tick now hour app)) = nextHandle app"
  by (simp_all add: tick_def Let_def)

lemma import_fields_frame [simp]:
  "currentMode (import_fields d app) = (if d_currentMode d = [] then ''work'' else d_currentMode d)"
  "timeLeft (import_fields d app) = (if d_timeLeft d = 0 then 1500 else d_timeLeft d)"
  "isRunning (import_fields d app) = isRunning app"
  "timer (import_fields d app) = timer app"
  "completedSessions (import_fields d app) = d_completedSessions d"
  "totalBreaks (import_fields d app) = (case d_totalBreaks d of None \<Rightarrow> 0 | Some n \<Rightarrow> n)"
  "isDark (import_fields d app) = d_isDark d"
  "localStorage (import_fields d app) = localStorage app"
  "intervals (import_fields d app) = intervals app"
  "nextHandle (import_fields d app) = nextHandle app"
  "pending (import_fields d app) = pending app"
  "notified (import_fields d app) = notified app"
  "tasks (import_fields d app) =
     [length (objects app) ..< length (objects app) + length (case d_tasks d of None \<Rightarrow> [] | Some t \<Rightarrow> t)]"
  "achievements (import_fields d app) =
     (case d_achievements d of None \<Rightarrow> achievements app
      | Some saved \<Rightarrow> restore_achievements saved (achievements app))"
  by (cases "d_achievements d"; simp add: import_fields_def Let_def case_prod_beta alloc_def)+

lemma load_fields_frame [simp]:
  "currentMode (load_fields d app) = d_currentMode d"
  "timeLeft (load_fields d app) = d_timeLeft d"
  "isRunning (load_fields d app) = isRunning app"
  "timer (load_fields d app) = timer app"
  "completedSessions (load_fields d app) = d_completedSessions d"
  "totalBreaks (load_fields d app) = (case d_totalBreaks d of None \<Rightarrow> 0 | Some n \<Rightarrow> n)"
  "isDark (load_fields d app) = d_isDark d"
  "localStorage (load_fields d app) = localStorage app"
  "intervals (load_fields d app) = intervals app"
  "nextHandle (load_fields d app) = nextHandle app"
  "pending (load_fields d app) = pending app"
  "notified (load_fields d app) = notified app"
  "tasks (load_fields d app) =
     [length (objects app) ..< length (objects app) + length (case d_tasks d of None \<Rightarrow> [] | Some t \<Rightarrow> t)]"
  "achievements (load_fields d app) =
     (case d_achievements d of None \<Rightarrow> achievements app
      | Some saved \<Rightarrow> restore_achievements saved (achievements app))"
  by (cases "d_achievements d"; simp add: load_fields_def Let_def case_prod_beta alloc_def)+

section \<open>The history archive\<close>

text \<open>\<open>string_of_nat\<close> prints the decimal numeral of a positive number.\<close>

lemma digit_char:
  assumes "k < 10"
  shows "(of_char (''0123456789'' ! k) :: nat) = 48 + k"
proof -
  from assms have "k = 0 \<or> k = 1 \<or> k = 2 \<or> k = 3 \<or> k = 4 \<or> k = 5 \<or> k = 6 \<or> k = 7
      \<or> k = 8 \<or> k = 9"
    by arith
  then show ?thesis
    by (elim disjE) simp_all
qed

lemma decimal_value_snoc:
  "decimal_value (ds @ [c]) = 10 * decimal_value ds + (of_char c - 48)"
  by (simp add: decimal_value_def)

lemma string_of_nat_decimal:
  "0 < n \<Longrightarrow> decimal_of n (string_of_nat n)"
proof (induction n rule: string_of_nat.induct)
  case (1 n)
  show ?case
  proof (cases "n < 10")
    case True
    have c: "(of_char (''0123456789'' ! n) :: nat) = 48 + n"
      using True by (rule digit_char)
    have "''0123456789'' ! n \<noteq> CHR ''0''"
    proof
      assume "''0123456789'' ! n = CHR ''0''"
      then have "(of_char (''0123456789'' ! n) :: nat) = 48" by simp
      then show False using c "1.prems" by simp
    qed
    moreover have "string_of_nat n = [''0123456789'' ! n]"
      using True by (simp add: string_of_nat.simps)
    ultimately show ?thesis
      using c True by (simp add: decimal_of_def is_digit_def decimal_value_def)
  next
    case False
    let ?hi = "string_of_nat (n div 10)"
    let ?c = "''0123456789'' ! (n mod 10)"
    have s: "string_of_nat n = ?hi @ [?c]"
      using False by (subst string_of_nat.simps) simp
    have hi: "decimal_of (n div 10) ?hi"
      using False by (intro "1.IH") simp_all
    have c: "(of_char ?c :: nat) = 48 + n mod 10"
      by (rule digit_char) simp
    have "decimal_value (?hi @ [?c]) = 10 * (n div 10) + n mod 10"
      using hi c by (simp add: decimal_value_snoc decimal_of_def)
    then have v: "decimal_value (?hi @ [?c]) = n"
      by simp
    show ?thesis
      using hi c v by (simp add: s decimal_of_def is_digit_def)
  qed
qed

text \<open>
  An event that keeps the history does not touch the history array, and it changes no
  object below an address \<open>n\<close>, as long as the active task list holds addresses from
  \<open>n\<close> on only: new objects are appended, and \<open>toggleTask\<close> mutates an object of
  the active list.
\<close>

lemma exec_store:
  assumes "keeps_history e" "n \<le> length (objects t)" "\<forall>r\<in>set (tasks t). n \<le> r"
  shows "n \<le> length (objects (exec e t))
       \<and> take n (objects (exec e t)) = take n (objects t)
       \<and> (\<forall>r\<in>set (tasks (exec e t)). n \<le> r)
       \<and> history (exec e t) = history t"
proof (cases e)
  case (AddTask tx now)
  then show ?thesis using assms by (simp add: addTask_def Let_def)
next
  case (ToggleTask taskId)
  show ?thesis
  proof (cases "find (\<lambda>r. task_id (objects t ! r) = taskId) (tasks t)")
    case None
    then show ?thesis using ToggleTask assms by (simp add: toggleTask_def)
  next
    case (Some r)
    then have "r \<in> set (tasks t)"
      by (auto simp: find_Some_iff)
    then have "n \<le> r" using assms by simp
    then show ?thesis using ToggleTask Some assms by (simp add: toggleTask_def Let_def)
  qed
next
  case (DeleteTask taskId)
  then show ?thesis using assms by (simp add: deleteTask_def)
next
  case Start
  then show ?thesis using assms by (simp add: startTimer_def)
next
  case (Tick now hour)
  then show ?thesis using assms by simp
next
  case Pause
  then show ?thesis using assms by simp
next
  case Reset
  then show ?thesis using assms by simp
next
  case (SwitchMode m)
  then show ?thesis using assms by simp
next
  case Deferred
  then show ?thesis using assms by (cases "pending t") simp_all
next
  case ToggleTheme
  then show ?thesis using assms by (simp add: toggleTheme_def)
next
  case (FinishCurrentSet nm now date)
  then show ?thesis using assms by simp
next
  case (StartNewSet c nm now date)
  then show ?thesis using assms by simp
next
  case (DeleteHistory setId)
  then show ?thesis using assms by simp
next
  case (Import f c)
  then show ?thesis using assms by simp
next
  case Reload
  then show ?thesis using assms by simp
qed

lemma run_store:
  assumes "list_all keeps_history es" "n \<le> length (objects t)" "\<forall>r\<in>set (tasks t). n \<le> r"
  shows "take n (objects (run es t)) = take n (objects t) \<and> history (run es t) = history t"
  using assms
proof (induction es arbitrary: t)
  case Nil
  then show ?case by simp
next
  case (Cons e es)
  from Cons.prems have e: "keeps_history e" and es: "list_all keeps_history es" by simp_all
  note st = exec_store [OF e Cons.prems(2,3)]
  have "take n (objects (run es (exec e t))) = take n (objects (exec e t))
      \<and> history (run es (exec e t)) = history (exec e t)"
    using Cons.IH [OF es] st by blast
  then show ?case using st by simp
qed

lemma deref_set_take:
  "\<forall>r\<in>set (set_tasks st). r < n \<Longrightarrow> deref_set (take n h) st = deref_set h st"
  by (simp add: deref_set_def deref_def)

lemma getHistory_take:
  assumes "\<forall>st\<in>set (history app). \<forall>r\<in>set (set_tasks st). r < n"
    and "take n (objects app') = take n (objects app)" "history app' = history app"
  shows "getHistory app' = getHistory app"
proof -
  have "deref_set (objects app') st = deref_set (objects app) st" if "st \<in> set (history app)" for st
    using deref_set_take [of st n "objects app'"] deref_set_take [of st n "objects app"]
      assms(1,2) that by simp
  then show ?thesis
    by (simp add: getHistory_def assms(3))
qed

text \<open>
  C4. \<open>finishCurrentSet\<close> puts a new record at the front of the history. The record
  holds the values of the active task list before the call and the session count; its
  name is the given name, and \<open>Set N\<close>, with \<open>N\<close> the decimal numeral of the length
  of the history before the call plus 1, when no name is given. Afterwards
  \<open>completedSessions\<close> is 0 and the active list is empty. The copy is independent:
  whatever events that keep the history follow (adding, toggling and deleting tasks
  among them), the history the application holds, read through its references, stays
  what it was right after the call. (The record shares the task objects with the old
  active array, but the active list is replaced by a new empty array, so no later
  operation reaches them.) The addresses of the active list and of the history are
  assumed to be inside the store.
\<close>

theorem finishCurrentSet_archives_independent_copy:
  assumes "\<forall>r\<in>set (tasks app). r < length (objects app)"
    and "\<forall>st\<in>set (history app). \<forall>r\<in>set (set_tasks st). r < length (objects app)"
  shows "\<exists>nm.
           getHistory (finishCurrentSet name now date app) =
             \<lparr>set_id = now, set_date = date, set_name = nm,
              set_completedSessions = completedSessions app,
              set_tasks = deref (objects app) (tasks app)\<rparr> # getHistory app
         \<and> (if name \<noteq> [] then nm = name
            else \<exists>ds. nm = ''Set '' @ ds \<and> decimal_of (length (getHistory app) + 1) ds)
         \<and> completedSessions (finishCurrentSet name now date app) = 0
         \<and> tasks (finishCurrentSet name now date app) = []
         \<and> (\<forall>es. list_all keeps_history es \<longrightarrow>
               getHistory (run es (finishCurrentSet name now date app))
                 = getHistory (finishCurrentSet name now date app))"
proof -
  let ?app' = "finishCurrentSet name now date app"
  let ?n = "length (objects app)"
  define nm where "nm = (if name \<noteq> [] then name
                     else ''Set '' @ string_of_nat (length (history app) + 1))"
  have h: "history ?app' =
      \<lparr>set_id = now, set_date = date, set_name = nm,
       set_completedSessions = completedSessions app, set_tasks = tasks app\<rparr> # history app"
    and o: "objects ?app' = objects app" and c: "completedSessions ?app' = 0"
    and t: "tasks ?app' = []"
    by (simp_all add: finishCurrentSet_def Let_def nm_def)
  have g: "getHistory ?app' =
             \<lparr>set_id = now, set_date = date, set_name = nm,
              set_completedSessions = completedSessions app,
              set_tasks = deref (objects app) (tasks app)\<rparr> # getHistory app"
    by (simp add: getHistory_def h o deref_set_def)
  have n: "if name \<noteq> [] then nm = name
            else \<exists>ds. nm = ''Set '' @ ds \<and> decimal_of (length (getHistory app) + 1) ds"
    using string_of_nat_decimal [of "length (history app) + 1"]
    by (simp add: nm_def getHistory_def)
  have wf: "\<forall>st\<in>set (history ?app'). \<forall>r\<in>set (set_tasks st). r < ?n"
    using assms by (simp add: h)
  have later: "getHistory (run es ?app') = getHistory ?app'" if "list_all keeps_history es" for es
  proof -
    have "take ?n (objects (run es ?app')) = take ?n (objects ?app')
        \<and> history (run es ?app') = history ?app'"
      using run_store [OF that, of ?n ?app'] by (simp add: o t)
    then show ?thesis
      using getHistory_take [OF wf] by blast
  qed
  show ?thesis
    using g n c t later by (intro exI [of _ nm]) simp
qed

theorem finishCurrentSet_archives_independent_copy_witness:
  "(let app = run (replicate 11 (FinishCurrentSet [] 0 ''2 Nov'')
                   @ [AddTask ''write'' 1, AddTask ''test'' 2, ToggleTask 1]) initial;
        app' = finishCurrentSet [] 3 ''3 Nov'' app;
        archived = \<lparr>set_id = 3, set_date = ''3 Nov'', set_name = ''Set 12'',
                    set_completedSessions = 0,
                    set_tasks = [\<lparr>task_id = 1, task_text = ''write'', task_completed = True\<rparr>,
                                 \<lparr>task_id = 2, task_text = ''test'', task_completed = False\<rparr>]\<rparr>;
        es = [AddTask ''write'' 1, ToggleTask 1, DeleteTask 2, ToggleTask 1, Start, Tick ''d'' 12]
    in length (getHistory app) = 11
       \<and> hd (getHistory app') = archived
       \<and> tl (getHistory app') = getHistory app
       \<and> completedSessions app' = 0
       \<and> tasks app' = []
       \<and> getHistory (run es app') = getHistory app'
       \<and> tasks (run es app') = [2])"
proof -
  define app where "app = run (replicate 11 (FinishCurrentSet [] 0 ''2 Nov'')
                   @ [AddTask ''write'' 1, AddTask ''test'' 2, ToggleTask 1]) initial"
  define es where "es = [AddTask ''write'' 1, ToggleTask 1, DeleteTask 2, ToggleTask 1, Start,
                         Tick ''d'' 12]"
  have h1: "\<forall>r\<in>set (tasks app). r < length (objects app)"
    unfolding app_def by code_simp
  have h2: "\<forall>st\<in>set (history app). \<forall>r\<in>set (set_tasks st). r < length (objects app)"
    unfolding app_def by code_simp
  have ev: "length (getHistory app) = 11"
    "hd (getHistory (finishCurrentSet [] 3 ''3 Nov'' app)) =
       \<lparr>set_id = 3, set_date = ''3 Nov'', set_name = ''Set 12'',
        set_completedSessions = 0,
        set_tasks = [\<lparr>task_id = 1, task_text = ''write'', task_completed = True\<rparr>,
                     \<lparr>task_id = 2, task_text = ''test'', task_completed = False\<rparr>]\<rparr>"
    "tasks (run es (finishCurrentSet [] 3 ''3 Nov'' app)) = [2]"
    unfolding app_def es_def by code_simp+
  have k: "list_all keeps_history es"
    by (simp add: es_def)
  from finishCurrentSet_archives_independent_copy [OF h1 h2, of "[]" 3 "''3 Nov''"]
  obtain nm where
    g: "getHistory (finishCurrentSet [] 3 ''3 Nov'' app) =
             \<lparr>set_id = 3, set_date = ''3 Nov'', set_name = nm,
              set_completedSessions = completedSessions app,
              set_tasks = deref (objects app) (tasks app)\<rparr> # getHistory app"
    and c: "completedSessions (finishCurrentSet [] 3 ''3 Nov'' app) = 0"
    and t: "tasks (finishCurrentSet [] 3 ''3 Nov'' app) = []"
    and l: "\<forall>es. list_all keeps_history es \<longrightarrow>
               getHistory (run es (finishCurrentSet [] 3 ''3 Nov'' app))
                 = getHistory (finishCurrentSet [] 3 ''3 Nov'' app)"
    by auto
  have l': "getHistory (run es (finishCurrentSet [] 3 ''3 Nov'' app))
                 = getHistory (finishCurrentSet [] 3 ''3 Nov'' app)"
    using l k by blast
  have tl: "tl (getHistory (finishCurrentSet [] 3 ''3 Nov'' app)) = getHistory app"
    by (simp add: g)
  show ?thesis
    unfolding Let_def app_def [symmetric] es_def [symmetric]
    using ev c t l' tl by simp
qed

section \<open>The persistence codec\<close>

text \<open>
  C1. The claim is that \<open>saveData\<close> followed by \<open>loadData\<close> restores every
  durable field, \<open>timeLeft\<close> among them. \<open>loadData\<close> does assign the saved
  \<open>timeLeft\<close>, but then calls \<open>switchMode (this.currentMode)\<close>, which sets
  \<open>timeLeft\<close> to the full duration of the mode. After one tick of a work session and
  a pause, \<open>timeLeft\<close> is 1499; the state saved then and loaded by a new application
  object has \<open>timeLeft = 1500\<close>.
\<close>

theorem loadData_resets_timeLeft:
  "(let app = run [Start, Tick ''d'' 12, Pause] initial
    in currentMode app = ''work'' \<and> timeLeft app = 1499
       \<and> (\<exists>app'. construct (localStorage (saveData app)) = Inr app'
             \<and> currentMode app' = ''work'' \<and> timeLeft app' = 1500))"
  by (simp add: Let_def startTimer_def tick_def pauseTimer_def construct_def loadData_def
        snapshot_def switchMode_def modes_def js_add_def round_double_def)

text \<open>
  C6. The claim is that an import of a malformed snapshot changes nothing. The only
  validation is that the parsed value is an object; the fields are assigned before
  \<open>switchMode\<close> runs. For a snapshot whose \<open>currentMode\<close> is not a mode of the
  table, imported while the timer is not running, \<open>switchMode\<close> throws, the handler
  shows its alert (\<open>Failed\<close>), and the mode, the time left, the session count and
  the task list have already been replaced.
\<close>

theorem importData_partial_on_error:
  "(let app = addTask ''write'' 5 initial;
        (outcome, app') = importData (Object
           \<lparr>d_currentMode = ''bogus'', d_timeLeft = 60, d_completedSessions = 7,
            d_tasks = None, d_isDark = False, d_history = None, d_achievements = None,
            d_totalBreaks = None\<rparr>) True app
    in outcome = Failed
       \<and> currentMode app = ''work'' \<and> currentMode app' = ''bogus''
       \<and> timeLeft app = 1500 \<and> timeLeft app' = 60
       \<and> completedSessions app = 0 \<and> completedSessions app' = 7
       \<and> tasks app = [0] \<and> tasks app' = [])"
  by (simp add: Let_def addTask_def importData_def switchMode_def modes_def)

text \<open>
  C7. The claim is that after loading or importing a snapshot without the
  \<open>achievements\<close> field the table is the default, all-locked one. A load at startup
  gives that table. An import replaces the task list, the history and the break counter
  by their defaults when the snapshot lacks them, as its confirmation dialog announces
  (\<open>This will replace all your current data\<close>), but it skips the achievements: for an
  import into an application that holds a task and has unlocked \<open>first-blood\<close>, the
  task list is emptied and \<open>first-blood\<close> stays unlocked.
\<close>

theorem import_without_achievements_keeps_unlocked:
  "(let d = \<lparr>d_currentMode = ''work'', d_timeLeft = 1500, d_completedSessions = 0,
             d_tasks = None, d_isDark = False, d_history = None, d_achievements = None,
             d_totalBreaks = None\<rparr>;
        app = addTask ''write'' 5 (state_of (completeSession ''3 Nov, 12:00'' 12 initial));
        (outcome, app') = importData (Object d) True app;
        loaded = construct (Some d)
    in tasks app = [0]
       \<and> ach_id (hd (achievements app)) = ''first-blood''
       \<and> ach_unlocked (hd (achievements app))
       \<and> outcome = Imported
       \<and> tasks app' = []
       \<and> completedSessions app' = 0
       \<and> ach_id (hd (achievements app')) = ''first-blood''
       \<and> ach_unlocked (hd (achievements app'))
       \<and> ach_unlockedDate (hd (achievements app')) = Some ''3 Nov, 12:00''
       \<and> achievements app' \<noteq> default_achievements
       \<and> \<not> isl loaded
       \<and> achievements (state_of loaded) = default_achievements)"
  by code_simp

section \<open>The range of the time left\<close>

text \<open>
  C10. The claim is that \<open>timeLeft\<close> stays between 0 and the duration of the current
  mode whatever the sequence of operations. \<open>completeSession\<close> stops the timer, which
  shows the start button again, and schedules the mode switch for a second later;
  \<open>switchMode\<close> does nothing while the timer runs. After a short break has run to its
  end, the start button is pressed before the scheduled switch comes due: the switch
  finds the timer running and is lost, and the next tick takes \<open>timeLeft\<close> from 0 to
  -1, in a mode whose duration is 300. When the switch comes due first, the same events
  leave \<open>timeLeft\<close> in range.
\<close>

theorem timeLeft_negative_after_early_restart:
  "(let ended = run ([SwitchMode ''short-break'', Start] @ replicate 300 (Tick ''d'' 12)) initial;
        early = run [Start, Deferred, Tick ''d'' 12] ended;
        late = run [Deferred, Start, Tick ''d'' 12] ended
    in currentMode ended = ''short-break'' \<and> timeLeft ended = 0 \<and> \<not> isRunning ended
       \<and> pending ended = [''work'']
       \<and> currentMode early = ''short-break'' \<and> timeLeft early = - 1 \<and> \<not> in_range early
       \<and> currentMode late = ''work'' \<and> timeLeft late = 1499 \<and> in_range late)"
  by code_simp

section \<open>Achievements stay unlocked\<close>

text \<open>
  C5. The claim is that no operation, import included, locks an unlocked achievement
  again. \<open>importData\<close> copies \<open>unlocked\<close> and \<open>unlockedDate\<close> from the snapshot
  into the table: a backup exported at the first visit, imported after
  \<open>first-blood\<close> has been unlocked, locks it again.
\<close>

theorem import_relocks_counterexample:
  "(let app = state_of (completeSession ''3 Nov, 12:00'' 12 initial);
        app' = exec (Import (Object (snapshot initial)) True) app
    in ach_id (hd (achievements app)) = ''first-blood''
       \<and> ach_unlocked (hd (achievements app))
       \<and> ach_id (hd (achievements app')) = ''first-blood''
       \<and> \<not> ach_unlocked (hd (achievements app')))"
  by code_simp

text \<open>
  Restoring a table that differs from the default table in the flags and dates only
  into the default table gives that table back: this is what a reload does.
\<close>

lemma relock_eq:
  assumes "relock t = relock s"
  shows "ach_id t = ach_id s"
    and "t\<lparr>ach_unlocked := ach_unlocked s, ach_unlockedDate := ach_unlockedDate s\<rparr> = s"
  using assms by (cases t; cases s; simp add: relock_def)+

lemma relock_id [simp]: "ach_id (relock a) = ach_id a"
  by (simp add: relock_def)

lemma restore_one_same:
  assumes "ach_id s \<notin> ach_id ` set pre" "relock t = relock s"
  shows "restore_one s (pre @ t # rest) = pre @ s # rest"
  using assms(1)
proof (induction pre)
  case Nil
  then show ?case using relock_eq [OF assms(2)] by simp
next
  case (Cons a pre)
  then show ?case by auto
qed

lemma restore_all:
  assumes "distinct (map ach_id (pre @ sv))" "map relock sv = map relock tbl"
  shows "foldl (\<lambda>t s. restore_one s t) (pre @ tbl) sv = pre @ sv"
  using assms
proof (induction sv arbitrary: pre tbl)
  case Nil
  then show ?case by simp
next
  case (Cons s sv)
  from Cons.prems(2) obtain t tbl' where tbl: "tbl = t # tbl'"
    and t: "relock s = relock t" and rest: "map relock sv = map relock tbl'"
    by (cases tbl) auto
  have notin: "ach_id s \<notin> ach_id ` set pre"
    using Cons.prems(1) by auto
  have step: "restore_one s (pre @ t # tbl') = (pre @ [s]) @ tbl'"
    using restore_one_same [OF notin, of t tbl'] t by simp
  have d: "distinct (map ach_id ((pre @ [s]) @ sv))"
    using Cons.prems(1) by simp
  show ?case
    using Cons.IH [OF d rest] by (simp add: tbl step)
qed

lemma default_ids_distinct: "distinct (map ach_id default_achievements)"
  by (simp add: default_achievements_def locked_def)

lemma relock_default: "map relock default_achievements = default_achievements"
  by (simp add: default_achievements_def locked_def relock_def)

lemma restore_synced_table:
  assumes "map relock table = default_achievements"
  shows "restore_achievements table default_achievements = table"
proof -
  have "map ach_id table = map ach_id (map relock table)"
    by (simp add: comp_def)
  then have d: "distinct (map ach_id ([] @ table))"
    using assms default_ids_distinct by simp
  have "map relock table = map relock default_achievements"
    using assms relock_default by simp
  from restore_all [OF d this] show ?thesis
    by (simp add: restore_achievements_def)
qed

lemma snapshot_achievements [simp]: "d_achievements (snapshot app) = Some (achievements app)"
  by (simp add: snapshot_def)

lemma synced_saveData:
  "map relock (achievements app) = default_achievements \<Longrightarrow> synced (saveData app)"
  by (simp add: synced_def)

lemma synced_table: "synced app \<Longrightarrow> map relock (achievements app) = default_achievements"
  by (simp add: synced_def)

lemma synced_initial: "synced initial"
  by (simp add: synced_def relock_default)

lemma synced_cong:
  "synced app \<Longrightarrow> achievements app' = achievements app \<Longrightarrow> localStorage app' = localStorage app
     \<Longrightarrow> synced app'"
  by (simp add: synced_def split: option.splits)

text \<open>An event keeps the table and either leaves the stored snapshot or saves.\<close>

lemma synced_keep:
  assumes "synced app" "achievements app' = achievements app"
    and "localStorage app' = localStorage app \<or> localStorage app' = Some (snapshot app')"
  shows "synced app'"
  using assms by (auto simp: synced_def split: option.splits)

lemma checkAchievements_table:
  "achievements (checkAchievements now hour app) =
     map (\<lambda>a. if \<not> ach_unlocked a \<and> condition (ach_id a) hour app
               then a\<lparr>ach_unlocked := True, ach_unlockedDate := Some now\<rparr> else a)
         (achievements app)"
proof -
  obtain as' new where cl: "check_loop now hour app (achievements app) [] = (as', new)"
    by (cases "check_loop now hour app (achievements app) []")
  have "achievements (checkAchievements now hour app) = as'"
    by (simp add: checkAchievements_def cl Let_def showAchievementNotification_def split: list.splits)
  then show ?thesis
    using check_loop_map [of now hour app "achievements app" "[]"] cl by simp
qed

lemma checkAchievements_relock:
  "map relock (achievements (checkAchievements now hour app)) = map relock (achievements app)"
  by (simp add: checkAchievements_table relock_def)

lemma checkAchievements_mono:
  "list_all2 (\<lambda>a b. ach_id b = ach_id a \<and> (ach_unlocked a \<longrightarrow> ach_unlocked b))
     (achievements app) (achievements (checkAchievements now hour app))"
  by (simp add: checkAchievements_table list_all2_map2 list_all2_same)

lemma mono_refl:
  "bs = as \<Longrightarrow> list_all2 (\<lambda>a b. ach_id b = ach_id a \<and> (ach_unlocked a \<longrightarrow> ach_unlocked b)) as bs"
  by (simp add: list_all2_same)

lemma completeSession_table:
  "(achievements (state_of (completeSession now hour app)) = achievements app
      \<and> localStorage (state_of (completeSession now hour app)) = localStorage app)
   \<or> (\<exists>app2. achievements app2 = achievements app
         \<and> achievements (state_of (completeSession now hour app)) = achievements (checkAchievements now hour app2)
         \<and> localStorage (state_of (completeSession now hour app))
              = Some (snapshot (state_of (completeSession now hour app))))"
proof (cases "modes (currentMode app)")
  case None
  then show ?thesis by (auto simp: completeSession_def Let_def)
next
  case (Some tm)
  define app2 where "app2 = (if currentMode app = ''work''
      then (pauseTimer app)\<lparr>completedSessions := js_add (completedSessions app) 1\<rparr>
      else pauseTimer app)"
  have a: "achievements app2 = achievements app"
    by (simp add: app2_def)
  have "\<exists>app4. state_of (completeSession now hour app) = saveData app4
          \<and> achievements app4 = achievements (checkAchievements now hour app2)"
    using Some by (auto simp: completeSession_def Let_def app2_def)
  then obtain app4 where "state_of (completeSession now hour app) = saveData app4"
    and "achievements app4 = achievements (checkAchievements now hour app2)" by blast
  then have "achievements (state_of (completeSession now hour app)) = achievements (checkAchievements now hour app2)
         \<and> localStorage (state_of (completeSession now hour app))
              = Some (snapshot (state_of (completeSession now hour app)))"
    by (simp add: saveData_def snapshot_def)
  then show ?thesis using a by blast
qed

lemma completeSession_synced:
  assumes "synced app"
  shows "synced (state_of (completeSession now hour app))
       \<and> list_all2 (\<lambda>a b. ach_id b = ach_id a \<and> (ach_unlocked a \<longrightarrow> ach_unlocked b))
           (achievements app) (achievements (state_of (completeSession now hour app)))"
  using completeSession_table [of now hour app]
proof (elim disjE exE conjE)
  assume "achievements (state_of (completeSession now hour app)) = achievements app"
    "localStorage (state_of (completeSession now hour app)) = localStorage app"
  then show ?thesis using assms by (simp add: synced_cong mono_refl)
next
  fix app2
  assume a: "achievements app2 = achievements app"
    and c: "achievements (state_of (completeSession now hour app)) = achievements (checkAchievements now hour app2)"
    and l: "localStorage (state_of (completeSession now hour app))
              = Some (snapshot (state_of (completeSession now hour app)))"
  have "map relock (achievements (state_of (completeSession now hour app))) = default_achievements"
    using checkAchievements_relock [of now hour app2] a c synced_table [OF assms] by simp
  then have "synced (state_of (completeSession now hour app))"
    using l by (simp add: synced_def)
  moreover have "list_all2 (\<lambda>a b. ach_id b = ach_id a \<and> (ach_unlocked a \<longrightarrow> ach_unlocked b))
           (achievements app) (achievements (state_of (completeSession now hour app)))"
    using checkAchievements_mono [of app2 now hour] a c by simp
  ultimately show ?thesis by simp
qed

lemma snapshot_saveData [simp]: "snapshot (saveData app) = snapshot app"
  by (simp add: snapshot_def)

lemma switchMode_storage:
  "localStorage (state_of (switchMode m app)) = localStorage app
   \<or> localStorage (state_of (switchMode m app)) = Some (snapshot (state_of (switchMode m app)))"
  by (simp add: switchMode_def Let_def split: option.splits)

lemma resetTimer_storage:
  "localStorage (state_of (resetTimer app)) = localStorage app
   \<or> localStorage (state_of (resetTimer app)) = Some (snapshot (state_of (resetTimer app)))"
  by (simp add: resetTimer_def Let_def split: option.splits)

lemma synced_switchMode:
  assumes "synced app"
  shows "synced (state_of (switchMode m app))"
  by (rule synced_keep [OF assms _ switchMode_storage]) simp

lemma synced_reload:
  assumes "synced app"
  shows "synced (state_of (construct (localStorage app)))
       \<and> achievements (state_of (construct (localStorage app))) = achievements app"
proof (cases "localStorage app")
  case None
  then have "achievements app = default_achievements"
    using assms by (simp add: synced_def)
  moreover have "synced (initial\<lparr>localStorage := None\<rparr>)"
    by (simp add: synced_def relock_default)
  ultimately show ?thesis using None by (simp add: construct_def loadData_def)
next
  case (Some d)
  let ?a = "load_fields d (initial\<lparr>localStorage := Some d\<rparr>)"
  from assms Some have d: "d_achievements d = Some (achievements app)"
    and t: "map relock (achievements app) = default_achievements"
    by (simp_all add: synced_def)
  have a: "achievements ?a = achievements app"
    using d restore_synced_table [OF t] by simp
  have l: "localStorage ?a = localStorage app"
    using Some by simp
  have r: "construct (localStorage app) = switchMode (d_currentMode d) ?a"
    using Some by (simp add: construct_def loadData_def Let_def)
  have "synced ?a"
    using assms a l by (rule synced_cong)
  then show ?thesis
    using a by (simp add: r synced_switchMode)
qed

lemma exec_synced:
  assumes "synced app" "\<not> is_import e"
  shows "synced (exec e app)
       \<and> list_all2 (\<lambda>a b. ach_id b = ach_id a \<and> (ach_unlocked a \<longrightarrow> ach_unlocked b))
           (achievements app) (achievements (exec e app))"
proof (cases e)
  case Start
  have "synced (startTimer app)"
    using assms(1) by (rule synced_cong) (simp_all add: startTimer_def)
  then show ?thesis using Start
    by (simp add: mono_refl startTimer_def)
next
  case (Tick now hour)
  show ?thesis
  proof (cases "intervals app \<noteq> [] \<and> js_add (timeLeft app) (- 1) \<le> 0")
    case True
    have "synced (app\<lparr>timeLeft := js_add (timeLeft app) (- 1)\<rparr>)"
      using assms(1) by (rule synced_cong) simp_all
    from completeSession_synced [OF this, of now hour] show ?thesis
      using Tick True by (simp add: tick_def Let_def)
  next
    case False
    have "synced (app\<lparr>timeLeft := js_add (timeLeft app) (- 1)\<rparr>)"
      using assms(1) by (rule synced_cong) simp_all
    then show ?thesis
      using Tick False assms(1) by (auto simp: tick_def Let_def mono_refl)
  qed
next
  case Pause
  have "synced (pauseTimer app)"
    using assms(1) by (rule synced_cong) simp_all
  then show ?thesis using Pause by (simp add: mono_refl)
next
  case Reset
  have "synced (state_of (resetTimer app))"
    by (rule synced_keep [OF assms(1) _ resetTimer_storage]) simp
  then show ?thesis using Reset by (simp add: mono_refl)
next
  case (SwitchMode m)
  then show ?thesis using assms(1) by (simp add: synced_switchMode mono_refl)
next
  case Deferred
  show ?thesis
  proof (cases "pending app")
    case Nil
    then show ?thesis using Deferred assms(1) by (simp add: mono_refl)
  next
    case (Cons m rest)
    have "synced (app\<lparr>pending := rest\<rparr>)"
      using assms(1) by (rule synced_cong) simp_all
    then have "synced (state_of (switchMode m (app\<lparr>pending := rest\<rparr>)))"
      by (rule synced_switchMode)
    then show ?thesis using Deferred Cons by (simp add: mono_refl)
  qed
next
  case ToggleTheme
  then show ?thesis using synced_table [OF assms(1)]
    by (simp add: toggleTheme_def synced_saveData mono_refl)
next
  case (AddTask tx now)
  then show ?thesis using assms(1) synced_table [OF assms(1)]
    by (simp add: addTask_def Let_def synced_saveData mono_refl)
next
  case (ToggleTask taskId)
  then show ?thesis using assms(1) synced_table [OF assms(1)]
    by (simp add: toggleTask_def Let_def synced_saveData mono_refl split: option.splits)
next
  case (DeleteTask taskId)
  then show ?thesis using synced_table [OF assms(1)]
    by (simp add: deleteTask_def synced_saveData mono_refl)
next
  case (FinishCurrentSet nm now date)
  then show ?thesis using synced_table [OF assms(1)]
    by (simp add: finishCurrentSet_def Let_def synced_saveData mono_refl)
next
  case (StartNewSet c nm now date)
  then show ?thesis using assms(1) synced_table [OF assms(1)]
    by (simp add: startNewSet_def finishCurrentSet_def Let_def synced_saveData mono_refl)
next
  case (DeleteHistory setId)
  then show ?thesis using synced_table [OF assms(1)]
    by (simp add: deleteHistory_def synced_saveData mono_refl)
next
  case (Import f c)
  then show ?thesis using assms(2) by simp
next
  case Reload
  then show ?thesis using synced_reload [OF assms(1)] by (simp add: mono_refl)
qed

lemma mono_trans:
  assumes "list_all2 (\<lambda>a b. ach_id b = ach_id a \<and> (ach_unlocked a \<longrightarrow> ach_unlocked b)) as bs"
    and "list_all2 (\<lambda>a b. ach_id b = ach_id a \<and> (ach_unlocked a \<longrightarrow> ach_unlocked b)) bs cs"
  shows "list_all2 (\<lambda>a b. ach_id b = ach_id a \<and> (ach_unlocked a \<longrightarrow> ach_unlocked b)) as cs"
  using assms by (rule list_all2_trans [rotated]) simp

lemma run_synced:
  assumes "synced app" "\<not> list_ex is_import es"
  shows "list_all2 (\<lambda>a b. ach_id b = ach_id a \<and> (ach_unlocked a \<longrightarrow> ach_unlocked b))
           (achievements app) (achievements (run es app))"
  using assms
proof (induction es arbitrary: app)
  case Nil
  then show ?case by (simp add: mono_refl)
next
  case (Cons e es)
  from Cons.prems have e: "\<not> is_import e" and es: "\<not> list_ex is_import es" by simp_all
  from exec_synced [OF Cons.prems(1) e] have s: "synced (exec e app)"
    and m: "list_all2 (\<lambda>a b. ach_id b = ach_id a \<and> (ach_unlocked a \<longrightarrow> ach_unlocked b))
           (achievements app) (achievements (exec e app))"
    by simp_all
  from mono_trans [OF m Cons.IH [OF s es]] show ?case by simp
qed

text \<open>
  C5, as the code has it. From a state in which the stored snapshot records the
  achievement table (\<open>synced\<close>: so it is at the first visit, and every event other than
  an import keeps it so), no sequence of events without an import locks an unlocked
  achievement again: the table keeps its entries in their order, and an entry that is
  unlocked stays unlocked through timer events, session completions with their
  achievement evaluation, task operations, archiving, deletions and reloads. An
  import is excluded: it sets each flag to the value the imported snapshot holds.
\<close>

theorem unlocked_stays_unlocked:
  assumes "synced app" "\<not> list_ex is_import es"
  shows "length (achievements (run es app)) = length (achievements app)
       \<and> (\<forall>i < length (achievements app).
             ach_id (achievements (run es app) ! i) = ach_id (achievements app ! i)
           \<and> (ach_unlocked (achievements app ! i) \<longrightarrow> ach_unlocked (achievements (run es app) ! i)))"
  using run_synced [OF assms] by (auto simp: list_all2_conv_all_nth)

theorem unlocked_stays_unlocked_witness:
  "(let app = state_of (completeSession ''3 Nov, 12:00'' 12 initial);
        es = [Deferred, FinishCurrentSet ''morning'' 1 ''3 Nov'', DeleteHistory 1, Reload,
              Start, Tick ''3 Nov, 23:00'' 23, Pause]
    in synced app \<and> \<not> list_ex is_import es
       \<and> ach_id (achievements app ! 0) = ''first-blood''
       \<and> ach_unlocked (achievements app ! 0)
       \<and> ach_id (achievements (run es app) ! 0) = ''first-blood''
       \<and> ach_unlocked (achievements (run es app) ! 0))"
proof -
  define app where "app = state_of (completeSession ''3 Nov, 12:00'' 12 initial)"
  define es where "es = [Deferred, FinishCurrentSet ''morning'' 1 ''3 Nov'', DeleteHistory 1, Reload,
              Start, Tick ''3 Nov, 23:00'' 23, Pause]"
  have s: "synced app"
    unfolding app_def by code_simp
  have n: "\<not> list_ex is_import es"
    by (simp add: es_def)
  have u: "ach_unlocked (achievements app ! 0)" "ach_id (achievements app ! 0) = ''first-blood''"
    "0 < length (achievements app)"
    unfolding app_def by code_simp+
  from unlocked_stays_unlocked [OF s n] u
  have "ach_unlocked (achievements (run es app) ! 0)"
    "ach_id (achievements (run es app) ! 0) = ''first-blood''"
    by auto
  then show ?thesis
    unfolding Let_def app_def [symmetric] es_def [symmetric] using s n u by simp
qed

end
